theory Spec2Isabelle
  imports Complex_Main
begin

section \<open>The azimuthal map component (AzimuthalMap.tsx)\<close>

text \<open>
  The component keeps a rotation triple and a zoom transform in two refs, mirrors the
  rotation in a React state variable for the coordinate readout, and redraws a d3
  selection of country paths and labels from gesture callbacks. The sources hold
  several revisions of the component; the model follows the one with the coordinate
  readout and the country labels, and adds the pan handler of the revision in
  components/AzimuthalMap.tsx where the two differ.

  JavaScript numbers are modelled as real numbers: the clamping, the scaling of pan
  deltas and the tick radii are stated on exact arithmetic, without IEEE rounding,
  infinities or NaN. Where the source divides (by the square root of the zoom scale),
  the theorems assume the divisor positive, which the zoom extent guarantees.
\<close>

subsection \<open>Data\<close>

type_synonym rotation = "real \<times> real \<times> real"

text \<open>d3.ZoomTransform: scale factor \<open>k\<close> and translation \<open>(x, y)\<close>.\<close>

record zoom_transform =
  tk :: real
  tx :: real
  ty :: real

definition zoomIdentity :: zoom_transform where
  "zoomIdentity = \<lparr>tk = 1, tx = 0, ty = 0\<rparr>"

text \<open>The fields of a Hammer input event that the handlers read.\<close>

record hammer_input =
  ev_deltaX :: real
  ev_deltaY :: real
  ev_scale :: real

text \<open>The d3-geo projection object: only the settings the component writes.\<close>

record projection =
  proj_rotate :: rotation
  proj_scale :: real
  proj_translate :: "real \<times> real"

text \<open>A GeoJSON feature with a name property; the geometry stays abstract.\<close>

record 'g feature =
  feature_name :: string
  geometry :: 'g

datatype svg_transform = Translate real real | Scale real

record 'g path_el =
  path_datum :: "'g feature"
  attr_d :: string
  path_fill :: string
  path_stroke :: string
  path_stroke_width :: real

record 'g text_el =
  text_datum :: "'g feature"
  text_transform :: "svg_transform list"
  text_content :: string

datatype tick_el =
  is_line: TickLine (line_x1: real) (line_y1: real) (line_x2: real) (line_y2: real)
           (line_stroke: string)
| is_label: TickText (text_x: real) (text_y: real) (tick_label: string)

datatype js_error = Error string

datatype 't fetch_outcome = Rejected js_error | Resolved "'t option"

text \<open>
  The library functions the component calls, as parameters: the d3-geo path generator
  (which returns a string or null), its centroid, topojson's feature decoder (which
  may throw on a malformed topology), and the translation d3-zoom gives a transform
  from the current transform, the new scale and an optional focus point.
\<close>

record ('t, 'g) lib =
  geoPath :: "projection \<Rightarrow> 'g feature \<Rightarrow> string option"
  path_centroid :: "projection \<Rightarrow> 'g feature \<Rightarrow> real \<times> real"
  topojson_feature :: "'t \<Rightarrow> js_error + 'g feature list"
  zoom_translation :: "zoom_transform \<Rightarrow> real \<Rightarrow> (real \<times> real) option \<Rightarrow> real \<times> real"

text \<open>
  The state of one component instance: the refs and the React state variable, the
  closure variables of the gesture handlers, the zoom transform d3-zoom stores on the
  svg element, the projection, and the drawing.
\<close>

record 'g app_state =
  rotationRef :: rotation
  zoomRef :: zoom_transform
  coordinates :: "real \<times> real"
  lastDeltaX :: real
  lastDeltaY :: real
  initialScale :: real
  hammer :: bool
  svg_zoom :: zoom_transform
  proj :: projection
  clip_circle :: "(real \<times> real \<times> real) option"
  background :: "(real \<times> real \<times> string) option"
  g_transform :: "svg_transform list"
  g_paths :: "'g path_el list"
  g_texts :: "'g text_el list"
  border_circle :: "(real \<times> real \<times> real) option"
  degreesGroup :: "tick_el list option"
  console :: "(string \<times> js_error) list"

subsection \<open>View geometry constants\<close>

definition width :: real where "width = 800"
definition height :: real where "height = 800"
definition padding :: real where "padding = 40"
definition totalWidth :: real where "totalWidth = width + 2 * padding"
definition totalHeight :: real where "totalHeight = height + 2 * padding"

subsection \<open>Rendering\<close>

text \<open>The attribute expression \<open>path(d) || ""\<close>: null and the empty string give "".\<close>

definition path_or_empty :: "string option \<Rightarrow> string" where
  "path_or_empty r = (case r of None \<Rightarrow> [] | Some str \<Rightarrow> if str = [] then [] else str)"

definition centroid_transform :: "real \<times> real \<Rightarrow> svg_transform list" where
  "centroid_transform c = [Translate (fst c) (snd c)]"

definition updateMap :: "('t, 'g) lib \<Rightarrow> 'g app_state \<Rightarrow> 'g app_state" where
  "updateMap L s =
     (let p = (proj s)\<lparr>proj_rotate := rotationRef s\<rparr>
      in s\<lparr>proj := p,
            g_paths := map (\<lambda>e. e\<lparr>attr_d := path_or_empty (geoPath L p (path_datum e))\<rparr>)
                           (g_paths s),
            g_texts := map (\<lambda>e. e\<lparr>text_transform :=
                                   centroid_transform (path_centroid L p (text_datum e))\<rparr>)
                           (g_texts s)\<rparr>)"

subsection \<open>Zoom\<close>

definition scaleExtent :: "real \<times> real" where
  "scaleExtent = (0.5632, 8)"

text \<open>The listener registered with \<open>.on("zoom", ...)\<close>.\<close>

definition zoom_listener ::
  "('t, 'g) lib \<Rightarrow> zoom_transform \<Rightarrow> 'g app_state \<Rightarrow> 'g app_state" where
  "zoom_listener L transform s =
     updateMap L
       (s\<lparr>zoomRef := transform,
          g_transform := [Translate (width / 2) (height / 2), Scale (tk transform),
                          Translate (- width / 2) (- height / 2)],
          proj := (proj s)\<lparr>proj_scale := ((height - 20) / 2) * tk transform\<rparr>\<rparr>)"

text \<open>
  Modelled from the spec: d3-zoom is a library, not part of the sources. The spec says
  the zoom transform carries a scale factor clamped to the scale extent, and that wheel
  gestures map to the same transform through the zoom library. Asked for the scale
  \<open>k1\<close> about an optional focus point, the library constrains the scale to the extent
  configured with \<open>.scaleExtent([0.5632, 8])\<close>, computes the translation (a parameter,
  since the component never reads it), stores the new transform on the svg element and
  calls the zoom listener with it.
\<close>

definition d3_zoom_to ::
  "('t, 'g) lib \<Rightarrow> real \<Rightarrow> (real \<times> real) option \<Rightarrow> 'g app_state \<Rightarrow> 'g app_state" where
  "d3_zoom_to L k1 focus s =
     (let t0 = svg_zoom s;
          k' = max (fst scaleExtent) (min (snd scaleExtent) k1);
          xy = zoom_translation L t0 k' focus;
          t = \<lparr>tk = k', tx = fst xy, ty = snd xy\<rparr>
      in zoom_listener L t (s\<lparr>svg_zoom := t\<rparr>))"

text \<open>
  Modelled from the spec: \<open>zoom.scaleTo(svg, k)\<close> of the zoom library, a zoom to the
  scale \<open>k\<close> with no pointer position.
\<close>

definition zoom_scaleTo :: "('t, 'g) lib \<Rightarrow> real \<Rightarrow> 'g app_state \<Rightarrow> 'g app_state" where
  "zoom_scaleTo L k1 s = d3_zoom_to L k1 None s"

text \<open>
  Modelled from the spec: the zoom library's wheel handling. A wheel gesture asks for
  the scale \<open>k1\<close> (any number) about the pointer position \<open>p\<close>.
\<close>

definition wheeled ::
  "('t, 'g) lib \<Rightarrow> real \<Rightarrow> real \<times> real \<Rightarrow> 'g app_state \<Rightarrow> 'g app_state" where
  "wheeled L k1 p s = d3_zoom_to L k1 (Some p) s"

subsection \<open>Gesture handlers\<close>

definition panstart :: "'g app_state \<Rightarrow> 'g app_state" where
  "panstart s = s\<lparr>lastDeltaX := 0, lastDeltaY := 0\<rparr>"

definition panmove :: "('t, 'g) lib \<Rightarrow> hammer_input \<Rightarrow> 'g app_state \<Rightarrow> 'g app_state" where
  "panmove L ev s =
     (case rotationRef s of (x, y, r) \<Rightarrow>
        let baseK = 0.3;
            zoomFactor = sqrt (tk (zoomRef s));
            k = baseK / zoomFactor;
            deltaX = ev_deltaX ev - lastDeltaX s;
            deltaY = ev_deltaY ev - lastDeltaY s;
            newX = x + deltaX * k;
            newY = max (- 90) (min 90 (y - deltaY * k));
            s1 = updateMap L (s\<lparr>rotationRef := (newX, newY, 0),
                                coordinates := (newX, newY)\<rparr>)
        in s1\<lparr>lastDeltaX := ev_deltaX ev, lastDeltaY := ev_deltaY ev\<rparr>)"

definition pinchstart :: "'g app_state \<Rightarrow> 'g app_state" where
  "pinchstart s = s\<lparr>initialScale := tk (zoomRef s)\<rparr>"

definition pinch :: "('t, 'g) lib \<Rightarrow> hammer_input \<Rightarrow> 'g app_state \<Rightarrow> 'g app_state" where
  "pinch L ev s =
     (let scale = max 0.5632 (min 8 (initialScale s * ev_scale ev))
      in zoom_scaleTo L scale s)"

subsection \<open>The pan handler of the other revision (components/AzimuthalMap.tsx)\<close>

text \<open>
  The file components/AzimuthalMap.tsx holds another revision of the component. Its
  \<open>updateMap\<close> redraws the paths only (that revision has no country labels), and its
  pan-move handler (lines 316 to 330) stores the new pitch as it is computed, without
  \<open>Math.max\<close> and \<open>Math.min\<close>, and has no coordinate state to set.
\<close>

definition updateMap_earlier :: "('t, 'g) lib \<Rightarrow> 'g app_state \<Rightarrow> 'g app_state" where
  "updateMap_earlier L s =
     (let p = (proj s)\<lparr>proj_rotate := rotationRef s\<rparr>
      in s\<lparr>proj := p,
            g_paths := map (\<lambda>e. e\<lparr>attr_d := path_or_empty (geoPath L p (path_datum e))\<rparr>)
                           (g_paths s)\<rparr>)"

definition panmove_earlier ::
  "('t, 'g) lib \<Rightarrow> hammer_input \<Rightarrow> 'g app_state \<Rightarrow> 'g app_state" where
  "panmove_earlier L ev s =
     (case rotationRef s of (x, y, r) \<Rightarrow>
        let baseK = 0.3;
            zoomFactor = sqrt (tk (zoomRef s));
            k = baseK / zoomFactor;
            deltaX = ev_deltaX ev - lastDeltaX s;
            deltaY = ev_deltaY ev - lastDeltaY s;
            s1 = updateMap_earlier L (s\<lparr>rotationRef := (x + deltaX * k, y - deltaY * k, 0)\<rparr>)
        in s1\<lparr>lastDeltaX := ev_deltaX ev, lastDeltaY := ev_deltaY ev\<rparr>)"

subsection \<open>Tick ring\<close>

text \<open>\<open>i.toString()\<close> for the loop counter: the decimal digits of a natural number.\<close>

definition digit_char :: "nat \<Rightarrow> char" where
  "digit_char d = ''0123456789'' ! d"

function toString :: "nat \<Rightarrow> string" where
  "toString n = (if n < 10 then [digit_char n] else toString (n div 10) @ [digit_char (n mod 10)])"
  by pat_completeness auto
termination
  by (relation "measure id") auto

definition outerRadius :: real where
  "outerRadius = (height - 20) / 2"

definition innerRadius :: "nat \<Rightarrow> real" where
  "innerRadius i =
     (if i mod 60 = 0 then outerRadius * 0.05
      else if i mod 30 = 0 then outerRadius * 0.34
      else if i mod 10 = 0 then outerRadius * 0.64
      else outerRadius * 0.8)"

definition tick_angle :: "nat \<Rightarrow> real" where
  "tick_angle i = real i * (pi / 180)"

definition tick_line :: "nat \<Rightarrow> tick_el" where
  "tick_line i =
     TickLine (width / 2 + innerRadius i * sin (tick_angle i))
              (height / 2 - innerRadius i * cos (tick_angle i))
              (width / 2 + outerRadius * sin (tick_angle i))
              (height / 2 - outerRadius * cos (tick_angle i))
              (''#000'' @ (if i mod 30 = 0 then ''9'' else ''6''))"

text \<open>The label ends with the character U+00BA.\<close>

definition tick_text :: "nat \<Rightarrow> tick_el" where
  "tick_text i =
     (let textRadius = outerRadius + 20
      in TickText (width / 2 + textRadius * sin (tick_angle i))
                  (height / 2 - textRadius * cos (tick_angle i))
                  (toString i @ [CHR 0xBA]))"

text \<open>One pass of the loop body appends a line and, for multiples of 10, a label.\<close>

definition tick_body :: "nat \<Rightarrow> tick_el list" where
  "tick_body i = tick_line i # (if i mod 10 = 0 then [tick_text i] else [])"

text \<open>\<open>for (let i = 0; i < 360; i += 5)\<close>, appending to the degrees group.\<close>

function tick_loop :: "nat \<Rightarrow> tick_el list \<Rightarrow> tick_el list" where
  "tick_loop i els = (if i < 360 then tick_loop (i + 5) (els @ tick_body i) else els)"
  by pat_completeness auto
termination
  by (relation "measure (\<lambda>(i, els). 360 - i)") auto

subsection \<open>Mounting and loading\<close>

text \<open>
  The values of the hooks before the effect runs. The drawing is empty and the handler
  variables hold the values they are declared with; the projection is a placeholder
  until the effect creates it.
\<close>

definition init_state :: "'g app_state" where
  "init_state =
     \<lparr>rotationRef = (- 13.27, - 58.33, 0),
      zoomRef = zoomIdentity,
      coordinates = (- 13.27, - 58.33),
      lastDeltaX = 0, lastDeltaY = 0, initialScale = 1,
      hammer = False,
      svg_zoom = zoomIdentity,
      proj = \<lparr>proj_rotate = (0, 0, 0), proj_scale = 0, proj_translate = (0, 0)\<rparr>,
      clip_circle = None, background = None,
      g_transform = [], g_paths = [], g_texts = [],
      border_circle = None, degreesGroup = None,
      console = []\<rparr>"

text \<open>
  The synchronous part of the effect: clear the svg, draw the clip circle and the
  background, create the projection, attach the zoom behaviour, and call \<open>updateMap\<close>.
\<close>

definition useEffect_body :: "('t, 'g) lib \<Rightarrow> bool \<Rightarrow> 'g app_state \<Rightarrow> 'g app_state" where
  "useEffect_body L svg_present s =
     (if \<not> svg_present then s
      else updateMap L
             (s\<lparr>clip_circle := Some (width / 2, height / 2, (height - 20) / 2),
                background := Some (width, height, ''#a6d5ff''),
                proj := \<lparr>proj_rotate = (0, 0, 0), proj_scale = (height - 20) / 2,
                         proj_translate = (width / 2, height / 2)\<rparr>,
                g_transform := [], g_paths := [], g_texts := [],
                border_circle := None, degreesGroup := None\<rparr>))"

text \<open>The enter selection of an index join: the data beyond the existing elements.\<close>

definition enter :: "'a list \<Rightarrow> 'b list \<Rightarrow> 'b list" where
  "enter existing data = drop (length existing) data"

definition new_path :: "('t, 'g) lib \<Rightarrow> projection \<Rightarrow> 'g feature \<Rightarrow> 'g path_el" where
  "new_path L p d =
     \<lparr>path_datum = d, attr_d = path_or_empty (geoPath L p d),
      path_fill = ''#d4e6c2'', path_stroke = ''#000'', path_stroke_width = 0.5\<rparr>"

definition new_text :: "('t, 'g) lib \<Rightarrow> projection \<Rightarrow> 'g feature \<Rightarrow> 'g text_el" where
  "new_text L p d =
     \<lparr>text_datum = d, text_transform = centroid_transform (path_centroid L p d),
      text_content = feature_name d\<rparr>"

text \<open>
  The \<open>.then\<close> callback. It returns early when the svg is gone, throws when the
  topology is null, and lets an exception of the decoder through; otherwise it draws
  the countries and labels, sets up the Hammer handlers, and draws the border circle
  and the tick ring.
\<close>

definition then_callback ::
  "('t, 'g) lib \<Rightarrow> bool \<Rightarrow> 't option \<Rightarrow> 'g app_state \<Rightarrow> js_error + 'g app_state" where
  "then_callback L svg_present topology s =
     (if \<not> svg_present then Inr s
      else case topology of
        None \<Rightarrow> Inl (Error ''Failed to load topology'')
      | Some t \<Rightarrow>
          (case topojson_feature L t of
             Inl e \<Rightarrow> Inl e
           | Inr features \<Rightarrow>
               Inr (s\<lparr>g_paths := g_paths s @ map (new_path L (proj s)) (enter (g_paths s) features),
                      g_texts := g_texts s @ map (new_text L (proj s)) (enter (g_texts s) features),
                      hammer := True,
                      lastDeltaX := 0, lastDeltaY := 0,
                      initialScale := 1,
                      border_circle := Some (width / 2, height / 2, (height - 20) / 2),
                      degreesGroup := Some (tick_loop 0 [])\<rparr>)))"

text \<open>
  \<open>d3.json(...).then(...).catch(...)\<close>: a rejection of the fetch, or an exception
  thrown in the \<open>.then\<close> callback, reaches the \<open>.catch\<close> handler, which logs it.
\<close>

definition on_fetch_settled ::
  "('t, 'g) lib \<Rightarrow> 't fetch_outcome \<Rightarrow> bool \<Rightarrow> 'g app_state \<Rightarrow> 'g app_state" where
  "on_fetch_settled L outcome svg_present s =
     (case (case outcome of
              Rejected e \<Rightarrow> Inl e
            | Resolved topology \<Rightarrow> then_callback L svg_present topology s) of
        Inl error \<Rightarrow>
          s\<lparr>console := console s @ [(''Error loading or processing world map data:'', error)]\<rparr>
      | Inr s' \<Rightarrow> s')"

subsection \<open>Events\<close>

text \<open>
  The zoom behaviour is attached when the effect runs; the Hammer handlers exist only
  once the topology has been drawn.
\<close>

datatype event =
  PanStart
| PanMove hammer_input
| PinchStart
| Pinch hammer_input
| Wheel real "real \<times> real"

fun dispatch :: "('t, 'g) lib \<Rightarrow> event \<Rightarrow> 'g app_state \<Rightarrow> 'g app_state" where
  "dispatch L PanStart s = (if hammer s then panstart s else s)"
| "dispatch L (PanMove ev) s = (if hammer s then panmove L ev s else s)"
| "dispatch L PinchStart s = (if hammer s then pinchstart s else s)"
| "dispatch L (Pinch ev) s = (if hammer s then pinch L ev s else s)"
| "dispatch L (Wheel k1 p) s = wheeled L k1 p s"

fun run :: "('t, 'g) lib \<Rightarrow> event list \<Rightarrow> 'g app_state \<Rightarrow> 'g app_state" where
  "run L [] s = s"
| "run L (e # es) s = run L es (dispatch L e s)"

text \<open>
  A life of the component: the effect runs, gestures arrive, the fetch settles, more
  gestures arrive.
\<close>

definition lifecycle ::
  "('t, 'g) lib \<Rightarrow> event list \<Rightarrow> 't fetch_outcome \<Rightarrow> event list \<Rightarrow> 'g app_state" where
  "lifecycle L before outcome after =
     run L after (on_fetch_settled L outcome True (run L before (useEffect_body L True init_state)))"

subsection \<open>Coordinate readout\<close>

text \<open>
  \<open>Number.prototype.toFixed(2)\<close> as ECMAScript defines it, on reals: the sign, then
  the integer nearest to a hundred times the magnitude (the larger one on a tie),
  written with at least three digits and a point before the last two. From
  \<open>10\<^sup>2\<^sup>1\<close> on, the standard falls back to the number's own string conversion,
  a parameter here.
\<close>

definition toFixed2 :: "(real \<Rightarrow> string) \<Rightarrow> real \<Rightarrow> string" where
  "toFixed2 numToString v =
     (let sgn = (if v < 0 then ''-'' else []);
          a = \<bar>v\<bar>
      in if 10 ^ 21 \<le> a then sgn @ numToString a
         else
           let n = nat \<lfloor>a * 100 + 1 / 2\<rfloor>;
               m = toString n;
               m' = (if length m \<le> 2 then replicate (3 - length m) CHR ''0'' @ m else m);
               len = length m'
           in sgn @ take (len - 2) m' @ ''.'' @ drop (len - 2) m')"

text \<open>
  The format the spec names, two decimal places: the sign, the digits of the whole
  part of the nearest hundredth (the larger one on a tie), a point, and two digits.
\<close>

definition two_decimals :: "real \<Rightarrow> string" where
  "two_decimals v =
     (let n = nat \<lfloor>\<bar>v\<bar> * 100 + 1 / 2\<rfloor>
      in (if v < 0 then ''-'' else []) @ toString (n div 100) @ ''.'' @
         [digit_char (n div 10 mod 10), digit_char (n mod 10)])"

text \<open>The heading shows both coordinates, each followed by the degree sign U+00B0.\<close>

definition readout :: "(real \<Rightarrow> string) \<Rightarrow> 'g app_state \<Rightarrow> string" where
  "readout numToString s =
     toFixed2 numToString (fst (coordinates s)) @ [CHR 0xB0] @ '', '' @
     toFixed2 numToString (snd (coordinates s)) @ [CHR 0xB0]"

subsection \<open>Reading a rotation, invariants, and a sample instance\<close>

definition yaw :: "rotation \<Rightarrow> real" where "yaw r = fst r"
definition pitch :: "rotation \<Rightarrow> real" where "pitch r = fst (snd r)"
definition roll :: "rotation \<Rightarrow> real" where "roll r = snd (snd r)"

text \<open>The zoom scale stays inside the scale extent.\<close>

definition zoom_ok :: "'g app_state \<Rightarrow> bool" where
  "zoom_ok s \<longleftrightarrow> 0.5632 \<le> tk (zoomRef s) \<and> tk (zoomRef s) \<le> 8"

text \<open>The pitch stays inside its clamp.\<close>

definition pitch_ok :: "'g app_state \<Rightarrow> bool" where
  "pitch_ok s \<longleftrightarrow> - 90 \<le> pitch (rotationRef s) \<and> pitch (rotationRef s) \<le> 90"

text \<open>The React state variable mirrors the rotation ref.\<close>

definition coords_ok :: "'g app_state \<Rightarrow> bool" where
  "coords_ok s \<longleftrightarrow> coordinates s = (yaw (rotationRef s), pitch (rotationRef s))"

text \<open>Every country path shows what the path generator gives under the current projection.\<close>

definition paths_ok :: "('t, 'g) lib \<Rightarrow> 'g app_state \<Rightarrow> bool" where
  "paths_ok L s \<longleftrightarrow>
     list_all (\<lambda>e. attr_d e = path_or_empty (geoPath L (proj s) (path_datum e))) (g_paths s)"

text \<open>
  A sample library and topology with two countries, the first of which the path
  generator draws nothing for; the component once this topology has loaded; and two
  pan events.
\<close>

definition demo_features :: "nat feature list" where
  "demo_features =
     [\<lparr>feature_name = ''A'', geometry = 0\<rparr>, \<lparr>feature_name = ''B'', geometry = 1\<rparr>]"

definition demo_lib :: "(nat, nat) lib" where
  "demo_lib =
     \<lparr>geoPath = (\<lambda>p d. if geometry d = 0 then None else Some ''M0,0L1,1Z''),
      path_centroid = (\<lambda>p d. (0, 0)),
      topojson_feature =
        (\<lambda>t. if t = 0 then Inl (Error ''bad topology'') else Inr demo_features),
      zoom_translation = (\<lambda>t k' focus. (0, 0))\<rparr>"

definition demo_loaded :: "nat app_state" where
  "demo_loaded = lifecycle demo_lib [] (Resolved (Some 1)) []"

definition demo_pan :: hammer_input where
  "demo_pan = \<lparr>ev_deltaX = 40, ev_deltaY = 20, ev_scale = 1\<rparr>"

definition demo_still :: hammer_input where
  "demo_still = \<lparr>ev_deltaX = 0, ev_deltaY = 0, ev_scale = 1\<rparr>"

text \<open>
  The loaded component after a wheel gesture to the scale 2, and a pinch tick with
  ratio 3.
\<close>

definition demo_zoomed :: "nat app_state" where
  "demo_zoomed = wheeled demo_lib 2 (0, 0) demo_loaded"

definition demo_spread :: hammer_input where
  "demo_spread = \<lparr>ev_deltaX = 0, ev_deltaY = 0, ev_scale = 3\<rparr>"

text \<open>
  A pan that takes the yaw past \<open>10\<^sup>2\<^sup>1\<close>, the component after it, and the string
  conversion of numbers as the engine prints that yaw.
\<close>

definition demo_fling :: hammer_input where
  "demo_fling = \<lparr>ev_deltaX = 10 ^ 300, ev_deltaY = 0, ev_scale = 1\<rparr>"

definition demo_far :: "nat app_state" where
  "demo_far = lifecycle demo_lib [] (Resolved (Some 1)) [PanStart, PanMove demo_fling]"

definition demo_numToString :: "real \<Rightarrow> string" where
  "demo_numToString v = ''3e+299''"

text \<open>
  The other revision starts from the rotation (0, 0, 0) and draws no labels; a drag of
  400 pixels straight down.
\<close>

definition earlier_loaded :: "nat app_state" where
  "earlier_loaded = demo_loaded\<lparr>rotationRef := (0, 0, 0), g_texts := []\<rparr>"

definition demo_drag_down :: hammer_input where
  "demo_drag_down = \<lparr>ev_deltaX = 0, ev_deltaY = 400, ev_scale = 1\<rparr>"

section \<open>Properties\<close>

declare toString.simps [simp del]
declare tick_loop.simps [simp del]

subsection \<open>What the handlers leave alone\<close>

lemma updateMap_fields [simp]:
  "rotationRef (updateMap L s) = rotationRef s"
  "zoomRef (updateMap L s) = zoomRef s"
  "coordinates (updateMap L s) = coordinates s"
  "svg_zoom (updateMap L s) = svg_zoom s"
  "hammer (updateMap L s) = hammer s"
  "initialScale (updateMap L s) = initialScale s"
  "lastDeltaX (updateMap L s) = lastDeltaX s"
  "lastDeltaY (updateMap L s) = lastDeltaY s"
  "console (updateMap L s) = console s"
  "degreesGroup (updateMap L s) = degreesGroup s"
  "border_circle (updateMap L s) = border_circle s"
  "background (updateMap L s) = background s"
  "clip_circle (updateMap L s) = clip_circle s"
  "g_transform (updateMap L s) = g_transform s"
  "proj (updateMap L s) = (proj s)\<lparr>proj_rotate := rotationRef s\<rparr>"
  by (simp_all add: updateMap_def Let_def)

lemma updateMap_paths:
  "g_paths (updateMap L s) =
     map (\<lambda>e. e\<lparr>attr_d := path_or_empty (geoPath L (proj (updateMap L s)) (path_datum e))\<rparr>)
         (g_paths s)"
  "g_texts (updateMap L s) =
     map (\<lambda>e. e\<lparr>text_transform :=
                  centroid_transform (path_centroid L (proj (updateMap L s)) (text_datum e))\<rparr>)
         (g_texts s)"
  by (simp_all add: updateMap_def Let_def)

lemma d3_zoom_to_zoomRef:
  "tk (zoomRef (d3_zoom_to L k1 focus s)) = max 0.5632 (min 8 k1)"
  by (simp add: d3_zoom_to_def zoom_listener_def scaleExtent_def Let_def)

lemma zoom_listener_rotationRef: "rotationRef (zoom_listener L t s) = rotationRef s"
  by (simp add: zoom_listener_def)

lemma d3_zoom_to_rotationRef: "rotationRef (d3_zoom_to L k1 focus s) = rotationRef s"
  by (simp add: d3_zoom_to_def Let_def zoom_listener_rotationRef)

lemma panmove_zoomRef: "zoomRef (panmove L ev s) = zoomRef s"
  by (simp add: panmove_def Let_def split: prod.splits)

lemma panmove_rotationRef:
  "rotationRef (panmove L ev s) =
     (yaw (rotationRef s) + (ev_deltaX ev - lastDeltaX s) * (0.3 / sqrt (tk (zoomRef s))),
      max (- 90) (min 90 (pitch (rotationRef s) -
                          (ev_deltaY ev - lastDeltaY s) * (0.3 / sqrt (tk (zoomRef s))))),
      0)"
  by (simp add: panmove_def Let_def yaw_def pitch_def split: prod.splits)

lemma panmove_fields:
  "lastDeltaX (panmove L ev s) = ev_deltaX ev"
  "lastDeltaY (panmove L ev s) = ev_deltaY ev"
  "coordinates (panmove L ev s) =
     (fst (rotationRef (panmove L ev s)), fst (snd (rotationRef (panmove L ev s))))"
  "proj (panmove L ev s) = (proj s)\<lparr>proj_rotate := rotationRef (panmove L ev s)\<rparr>"
  by (simp_all add: panmove_def Let_def split: prod.splits)

lemma panmove_redraw:
  "g_paths (panmove L ev s) =
     map (\<lambda>e. e\<lparr>attr_d := path_or_empty (geoPath L (proj (panmove L ev s)) (path_datum e))\<rparr>)
         (g_paths s)"
  "g_texts (panmove L ev s) =
     map (\<lambda>e. e\<lparr>text_transform :=
                  centroid_transform (path_centroid L (proj (panmove L ev s)) (text_datum e))\<rparr>)
         (g_texts s)"
  by (simp_all add: panmove_def updateMap_def Let_def split: prod.splits)

lemma demo_loaded_fields:
  "rotationRef demo_loaded = (- 13.27, - 58.33, 0)"
  "zoomRef demo_loaded = zoomIdentity"
  "lastDeltaX demo_loaded = 0"
  "lastDeltaY demo_loaded = 0"
  "initialScale demo_loaded = 1"
  "hammer demo_loaded"
  by (simp_all add: demo_loaded_def lifecycle_def on_fetch_settled_def then_callback_def
        useEffect_body_def init_state_def demo_lib_def)

lemma demo_loaded_drawing:
  "map attr_d (g_paths demo_loaded) = ['''', ''M0,0L1,1Z'']"
  "map path_datum (g_paths demo_loaded) = demo_features"
  "map text_content (g_texts demo_loaded) = [''A'', ''B'']"
  by (simp_all add: demo_loaded_def lifecycle_def on_fetch_settled_def then_callback_def
        useEffect_body_def init_state_def demo_lib_def demo_features_def enter_def
        updateMap_def new_path_def new_text_def path_or_empty_def Let_def)

subsection \<open>Rotation state\<close>

text \<open>
  The pan-move handler that clamps (the revision with the coordinate readout): after
  it the pitch is within [-90, 90] and the roll is 0, for every event and every state,
  whatever its yaw. The handler has no throwing path: it is a total function of the
  event and the state. The zoom scale is positive, as it is inside the scale extent.
\<close>

lemma panmove_pitch_clamped_roll_zero:
  assumes "0 < tk (zoomRef s)"
  shows "- 90 \<le> pitch (rotationRef (panmove L ev s)) \<and>
         pitch (rotationRef (panmove L ev s)) \<le> 90 \<and>
         roll (rotationRef (panmove L ev s)) = 0"
  unfolding panmove_rotationRef by (simp add: pitch_def roll_def)

lemma panmove_pitch_clamped_roll_zero_example:
  "0 < tk (zoomRef (demo_loaded\<lparr>rotationRef := (10 ^ 300, 90, 0)\<rparr>)) \<and>
   - 90 \<le> pitch (rotationRef (panmove demo_lib demo_pan
                                  (demo_loaded\<lparr>rotationRef := (10 ^ 300, 90, 0)\<rparr>))) \<and>
   pitch (rotationRef (panmove demo_lib demo_pan
                         (demo_loaded\<lparr>rotationRef := (10 ^ 300, 90, 0)\<rparr>))) \<le> 90 \<and>
   roll (rotationRef (panmove demo_lib demo_pan
                        (demo_loaded\<lparr>rotationRef := (10 ^ 300, 90, 0)\<rparr>))) = 0"
proof -
  have h: "0 < tk (zoomRef (demo_loaded\<lparr>rotationRef := (10 ^ 300, 90, 0)\<rparr>))"
    by (simp add: demo_loaded_fields zoomIdentity_def)
  show ?thesis
    using h panmove_pitch_clamped_roll_zero [OF h, of demo_lib demo_pan] by blast
qed

lemma panmove_earlier_rotationRef:
  "rotationRef (panmove_earlier L ev s) =
     (yaw (rotationRef s) + (ev_deltaX ev - lastDeltaX s) * (0.3 / sqrt (tk (zoomRef s))),
      pitch (rotationRef s) - (ev_deltaY ev - lastDeltaY s) * (0.3 / sqrt (tk (zoomRef s))),
      0)"
  by (simp add: panmove_earlier_def updateMap_earlier_def Let_def yaw_def pitch_def
           split: prod.splits)

lemma earlier_loaded_fields:
  "rotationRef earlier_loaded = (0, 0, 0)"
  "zoomRef earlier_loaded = zoomIdentity"
  "lastDeltaX earlier_loaded = 0"
  "lastDeltaY earlier_loaded = 0"
  by (simp_all add: earlier_loaded_def demo_loaded_fields)

text \<open>
  C1. For every pan-move event, after handling it the rotation state should have its
  pitch within [-90, 90] and its roll equal to 0, with no exception however large the
  yaw. The handler of components/AzimuthalMap.tsx (lines 316 to 330) breaks the pitch
  bound: from the rotation (0, 0, 0) at zoom scale 1, a drag of 400 pixels down gives
  the pitch -120, where the clamping handler gives -90. The roll is 0 in both.
\<close>

theorem panmove_earlier_pitch_unclamped:
  "pitch (rotationRef (panmove_earlier demo_lib demo_drag_down earlier_loaded)) = - 120 \<and>
   \<not> - 90 \<le> pitch (rotationRef (panmove_earlier demo_lib demo_drag_down earlier_loaded)) \<and>
   roll (rotationRef (panmove_earlier demo_lib demo_drag_down earlier_loaded)) = 0 \<and>
   pitch (rotationRef (panmove demo_lib demo_drag_down earlier_loaded)) = - 90"
  by (simp add: panmove_earlier_rotationRef panmove_rotationRef earlier_loaded_fields
        zoomIdentity_def demo_drag_down_def yaw_def pitch_def roll_def)

text \<open>
  C4. On a pan-move tick the pixel delta since the previous tick (the event's
  accumulated delta minus the stored baseline) is scaled by 0.3 / sqrt(k), k the
  current zoom scale; the scaled horizontal delta is added to the yaw; the scaled
  vertical delta is subtracted from the pitch and the result clamped to [-90, 90], so
  that inside that range the new pitch is exactly the difference; the projection is
  rotated to the new rotation and every path and label is redrawn before the handler
  returns; the baseline becomes the event's accumulated delta; and pan start resets
  the baseline to zero.
\<close>

theorem panmove_scaled_delta:
  assumes "0 < tk (zoomRef s)"
  shows "(0.3 / sqrt (tk (zoomRef s))) * sqrt (tk (zoomRef s)) = 0.3 \<and>
    yaw (rotationRef (panmove L ev s)) =
      yaw (rotationRef s) + (ev_deltaX ev - lastDeltaX s) * (0.3 / sqrt (tk (zoomRef s))) \<and>
    pitch (rotationRef (panmove L ev s)) =
      max (- 90) (min 90 (pitch (rotationRef s) -
                          (ev_deltaY ev - lastDeltaY s) * (0.3 / sqrt (tk (zoomRef s))))) \<and>
    (- 90 \<le> pitch (rotationRef s) - (ev_deltaY ev - lastDeltaY s) * (0.3 / sqrt (tk (zoomRef s))) \<and>
     pitch (rotationRef s) - (ev_deltaY ev - lastDeltaY s) * (0.3 / sqrt (tk (zoomRef s))) \<le> 90 \<longrightarrow>
       pitch (rotationRef (panmove L ev s)) =
         pitch (rotationRef s) - (ev_deltaY ev - lastDeltaY s) * (0.3 / sqrt (tk (zoomRef s)))) \<and>
    proj_rotate (proj (panmove L ev s)) = rotationRef (panmove L ev s) \<and>
    g_paths (panmove L ev s) =
      map (\<lambda>e. e\<lparr>attr_d := path_or_empty (geoPath L (proj (panmove L ev s)) (path_datum e))\<rparr>)
          (g_paths s) \<and>
    g_texts (panmove L ev s) =
      map (\<lambda>e. e\<lparr>text_transform :=
                   centroid_transform (path_centroid L (proj (panmove L ev s)) (text_datum e))\<rparr>)
          (g_texts s) \<and>
    lastDeltaX (panmove L ev s) = ev_deltaX ev \<and>
    lastDeltaY (panmove L ev s) = ev_deltaY ev \<and>
    lastDeltaX (panstart s) = 0 \<and> lastDeltaY (panstart s) = 0"
proof -
  have "0 < sqrt (tk (zoomRef s))"
    using assms by simp
  then have c1: "(0.3 / sqrt (tk (zoomRef s))) * sqrt (tk (zoomRef s)) = 0.3"
    by simp
  have c2: "yaw (rotationRef (panmove L ev s)) =
      yaw (rotationRef s) + (ev_deltaX ev - lastDeltaX s) * (0.3 / sqrt (tk (zoomRef s)))"
    unfolding panmove_rotationRef by (simp add: yaw_def)
  have c3: "pitch (rotationRef (panmove L ev s)) =
      max (- 90) (min 90 (pitch (rotationRef s) -
                          (ev_deltaY ev - lastDeltaY s) * (0.3 / sqrt (tk (zoomRef s)))))"
    unfolding panmove_rotationRef by (simp add: pitch_def)
  have c4: "- 90 \<le> pitch (rotationRef s) - (ev_deltaY ev - lastDeltaY s) * (0.3 / sqrt (tk (zoomRef s))) \<and>
     pitch (rotationRef s) - (ev_deltaY ev - lastDeltaY s) * (0.3 / sqrt (tk (zoomRef s))) \<le> 90 \<longrightarrow>
       pitch (rotationRef (panmove L ev s)) =
         pitch (rotationRef s) - (ev_deltaY ev - lastDeltaY s) * (0.3 / sqrt (tk (zoomRef s)))"
    unfolding c3 by (simp only: min_def max_def) simp
  have c5: "proj_rotate (proj (panmove L ev s)) = rotationRef (panmove L ev s)"
    by (simp add: panmove_fields(4))
  have c6: "lastDeltaX (panstart s) = 0 \<and> lastDeltaY (panstart s) = 0"
    by (simp add: panstart_def)
  show ?thesis
    using c1 c2 c3 c4 c5 c6 panmove_redraw [of L ev s] panmove_fields(1,2) [of L ev s]
    by blast
qed

theorem panmove_scaled_delta_witness:
  "0 < tk (zoomRef demo_loaded) \<and>
   - 90 \<le> pitch (rotationRef demo_loaded) -
            (ev_deltaY demo_pan - lastDeltaY demo_loaded) * (0.3 / sqrt (tk (zoomRef demo_loaded))) \<and>
   pitch (rotationRef demo_loaded) -
     (ev_deltaY demo_pan - lastDeltaY demo_loaded) * (0.3 / sqrt (tk (zoomRef demo_loaded))) \<le> 90 \<and>
   yaw (rotationRef (panmove demo_lib demo_pan demo_loaded)) = - 1.27 \<and>
   pitch (rotationRef (panmove demo_lib demo_pan demo_loaded)) = - 64.33 \<and>
   lastDeltaX (panmove demo_lib demo_pan demo_loaded) = 40 \<and>
   lastDeltaY (panmove demo_lib demo_pan demo_loaded) = 20"
proof -
  have h: "0 < tk (zoomRef demo_loaded)"
    by (simp add: demo_loaded_fields zoomIdentity_def)
  show ?thesis
    using h panmove_scaled_delta [OF h, of demo_lib demo_pan]
    by (simp add: demo_loaded_fields zoomIdentity_def demo_pan_def yaw_def pitch_def)
qed

text \<open>
  C6. A pan-move tick whose pixel delta since the previous tick is (0, 0) leaves the
  rotation state unchanged, for any starting rotation with pitch within [-90, 90] and
  roll 0 (the zoom scale being positive, as it is inside the scale extent).
\<close>

theorem zero_delta_keeps_rotation:
  assumes "ev_deltaX ev = lastDeltaX s" and "ev_deltaY ev = lastDeltaY s"
    and "- 90 \<le> pitch (rotationRef s)" and "pitch (rotationRef s) \<le> 90"
    and "roll (rotationRef s) = 0"
    and "0 < tk (zoomRef s)"
  shows "rotationRef (panmove L ev s) = rotationRef s"
  using assms unfolding panmove_rotationRef
  by (cases "rotationRef s") (simp add: yaw_def pitch_def roll_def)

theorem zero_delta_keeps_rotation_witness:
  "ev_deltaX demo_still = lastDeltaX demo_loaded \<and>
   ev_deltaY demo_still = lastDeltaY demo_loaded \<and>
   - 90 \<le> pitch (rotationRef demo_loaded) \<and> pitch (rotationRef demo_loaded) \<le> 90 \<and>
   roll (rotationRef demo_loaded) = 0 \<and> 0 < tk (zoomRef demo_loaded) \<and>
   rotationRef (panmove demo_lib demo_still demo_loaded) = rotationRef demo_loaded"
proof -
  have h: "ev_deltaX demo_still = lastDeltaX demo_loaded"
    "ev_deltaY demo_still = lastDeltaY demo_loaded"
    "- 90 \<le> pitch (rotationRef demo_loaded)" "pitch (rotationRef demo_loaded) \<le> 90"
    "roll (rotationRef demo_loaded) = 0" "0 < tk (zoomRef demo_loaded)"
    by (simp_all add: demo_loaded_fields demo_still_def zoomIdentity_def pitch_def roll_def)
  show ?thesis
    using h zero_delta_keeps_rotation [OF h, of demo_lib] by blast
qed

subsection \<open>Zoom state\<close>

lemma d3_zoom_to_zoom_ok: "zoom_ok (d3_zoom_to L k1 focus s)"
proof -
  have "(0.5632::real) \<le> max 0.5632 (min 8 k1)" "max 0.5632 (min 8 k1) \<le> (8::real)"
    by (rule max.cobounded1) (rule max.boundedI, simp, rule min.cobounded1)
  then show ?thesis
    unfolding zoom_ok_def d3_zoom_to_zoomRef by blast
qed

lemma dispatch_zoom_ok: "zoom_ok s \<Longrightarrow> zoom_ok (dispatch L e s)"
proof (cases e)
  case (PanMove ev)
  assume "zoom_ok s"
  then show ?thesis
    using PanMove by (simp add: zoom_ok_def panmove_zoomRef)
next
  case (Pinch ev)
  assume "zoom_ok s"
  then show ?thesis
    using Pinch by (simp add: pinch_def zoom_scaleTo_def d3_zoom_to_zoom_ok Let_def)
next
  case (Wheel k1 p)
  then show ?thesis
    by (simp add: wheeled_def d3_zoom_to_zoom_ok)
qed (simp_all add: zoom_ok_def panstart_def pinchstart_def)

lemma run_zoom_ok: "zoom_ok s \<Longrightarrow> zoom_ok (run L es s)"
  by (induction es arbitrary: s) (simp_all add: dispatch_zoom_ok)

lemma on_fetch_settled_zoomRef: "zoomRef (on_fetch_settled L outcome b s) = zoomRef s"
  by (auto simp: on_fetch_settled_def then_callback_def
           split: fetch_outcome.splits sum.splits option.splits if_splits)

lemma useEffect_body_zoomRef: "zoomRef (useEffect_body L b s) = zoomRef s"
  by (simp add: useEffect_body_def)

lemma lifecycle_zoom_ok: "zoom_ok (lifecycle L before outcome after)"
proof -
  have "zoom_ok (useEffect_body L True (init_state :: 'a app_state))"
    by (simp add: zoom_ok_def useEffect_body_zoomRef init_state_def zoomIdentity_def)
  then have "zoom_ok (run L before (useEffect_body L True init_state))"
    by (rule run_zoom_ok)
  then have "zoom_ok (on_fetch_settled L outcome True
                        (run L before (useEffect_body L True init_state)))"
    by (simp add: zoom_ok_def on_fetch_settled_zoomRef)
  then show ?thesis
    unfolding lifecycle_def by (rule run_zoom_ok)
qed

text \<open>
  C2. Whatever gestures arrive before and after the fetch settles (wheel gestures
  asking for any scale, pinch gestures with any scale ratio, pans), and however the
  fetch ends, the scale factor of the zoom state lies within [0.5632, 8].
\<close>

theorem zoom_scale_within_extent:
  "0.5632 \<le> tk (zoomRef (lifecycle L before outcome after)) \<and>
   tk (zoomRef (lifecycle L before outcome after)) \<le> 8"
  using lifecycle_zoom_ok [of L before outcome after] by (simp add: zoom_ok_def)

theorem zoom_scale_within_extent_witness:
  "0.5632 \<le> tk (zoomRef (lifecycle demo_lib [Wheel (10 ^ 9) (10, 20)] (Resolved (Some 1))
                             [PinchStart, Pinch \<lparr>ev_deltaX = 0, ev_deltaY = 0, ev_scale = 0\<rparr>,
                              Wheel (- 3) (0, 0)])) \<and>
   tk (zoomRef (lifecycle demo_lib [Wheel (10 ^ 9) (10, 20)] (Resolved (Some 1))
                  [PinchStart, Pinch \<lparr>ev_deltaX = 0, ev_deltaY = 0, ev_scale = 0\<rparr>,
                   Wheel (- 3) (0, 0)])) \<le> 8"
  by (rule zoom_scale_within_extent)

lemma pinch_ratio_one_gives_baseline:
  assumes "ev_scale ev = 1" and "0.5632 \<le> initialScale s" and "initialScale s \<le> 8"
  shows "tk (zoomRef (pinch L ev s)) = initialScale s"
proof -
  have "max 0.5632 (min 8 (initialScale s)) = initialScale s"
    using assms(2,3) by (simp only: min_absorb2 max_absorb2)
  then show ?thesis
    using assms(1)
    by (simp only: pinch_def Let_def zoom_scaleTo_def d3_zoom_to_zoomRef mult_1_right)
qed

lemma pinch_initialScale: "initialScale (pinch L ev s) = initialScale s"
  by (simp add: pinch_def zoom_scaleTo_def d3_zoom_to_def zoom_listener_def Let_def)

lemma pinchstart_fields:
  "initialScale (pinchstart s) = tk (zoomRef s)"
  "zoomRef (pinchstart s) = zoomRef s"
  by (simp_all add: pinchstart_def)

lemma demo_zoomed_fields:
  "tk (zoomRef demo_zoomed) = 2"
  "initialScale demo_zoomed = 1"
  by (simp_all add: demo_zoomed_def wheeled_def d3_zoom_to_def zoom_listener_def
        scaleExtent_def Let_def demo_loaded_fields)

text \<open>
  C7. Pinch start captures the current zoom scale as the baseline, and a pinch tick
  with scale ratio exactly 1 leaves the scale factor of the zoom state at that
  baseline, for any scale within [0.5632, 8] at pinch start; this holds for the first
  tick of the gesture and for a tick that follows another tick of any ratio.
\<close>

theorem pinch_ratio_one_keeps_baseline:
  assumes "ev_scale ev = 1" and "0.5632 \<le> tk (zoomRef s)" and "tk (zoomRef s) \<le> 8"
  shows "initialScale (pinchstart s) = tk (zoomRef s) \<and>
         tk (zoomRef (pinch L ev (pinchstart s))) = tk (zoomRef s) \<and>
         tk (zoomRef (pinch L ev (pinch L ev' (pinchstart s)))) = tk (zoomRef s)"
proof -
  have base: "initialScale (pinchstart s) = tk (zoomRef s)"
    by (rule pinchstart_fields)
  have "tk (zoomRef (pinch L ev (pinchstart s))) = initialScale (pinchstart s)"
    using assms by (intro pinch_ratio_one_gives_baseline) (simp_all only: base)
  moreover have "tk (zoomRef (pinch L ev (pinch L ev' (pinchstart s)))) =
      initialScale (pinch L ev' (pinchstart s))"
    using assms by (intro pinch_ratio_one_gives_baseline) (simp_all only: pinch_initialScale base)
  ultimately show ?thesis
    by (simp only: pinch_initialScale base simp_thms)
qed

theorem pinch_ratio_one_keeps_baseline_witness:
  "ev_scale demo_still = 1 \<and>
   0.5632 \<le> tk (zoomRef demo_zoomed) \<and> tk (zoomRef demo_zoomed) \<le> 8 \<and>
   tk (zoomRef demo_zoomed) = 2 \<and> initialScale demo_zoomed = 1 \<and>
   initialScale (pinchstart demo_zoomed) = 2 \<and>
   tk (zoomRef (pinch demo_lib demo_still (pinchstart demo_zoomed))) = 2 \<and>
   tk (zoomRef (pinch demo_lib demo_still
                  (pinch demo_lib demo_spread (pinchstart demo_zoomed)))) = 2"
proof -
  have h: "ev_scale demo_still = 1"
    "0.5632 \<le> tk (zoomRef demo_zoomed)" "tk (zoomRef demo_zoomed) \<le> 8"
    by (simp_all add: demo_still_def demo_zoomed_fields)
  show ?thesis
    using h pinch_ratio_one_keeps_baseline [OF h, of demo_lib demo_spread]
    by (simp add: demo_zoomed_fields)
qed

subsection \<open>Frames of the two gesture streams\<close>

text \<open>
  C10. Handling a pan-move event changes neither the zoom state (the zoom ref, the
  transform stored on the svg element, the scale transform of the group, the scale of
  the projection); handling a zoom event (the listener itself, a wheel gesture, a
  pinch tick) changes neither the rotation state nor the coordinates shown.
\<close>

theorem gesture_handlers_frame_disjoint:
  "zoomRef (panmove L ev s) = zoomRef s \<and>
   svg_zoom (panmove L ev s) = svg_zoom s \<and>
   g_transform (panmove L ev s) = g_transform s \<and>
   proj_scale (proj (panmove L ev s)) = proj_scale (proj s) \<and>
   rotationRef (zoom_listener L t s) = rotationRef s \<and>
   coordinates (zoom_listener L t s) = coordinates s \<and>
   rotationRef (wheeled L k1 p s) = rotationRef s \<and>
   rotationRef (pinch L ev s) = rotationRef s"
proof -
  have "svg_zoom (panmove L ev s) = svg_zoom s" "g_transform (panmove L ev s) = g_transform s"
    "proj_scale (proj (panmove L ev s)) = proj_scale (proj s)"
    by (simp_all add: panmove_def Let_def split: prod.splits)
  moreover have "coordinates (zoom_listener L t s) = coordinates s"
    by (simp add: zoom_listener_def)
  moreover have "rotationRef (wheeled L k1 p s) = rotationRef s"
    "rotationRef (pinch L ev s) = rotationRef s"
    by (simp_all add: wheeled_def pinch_def zoom_scaleTo_def Let_def d3_zoom_to_rotationRef)
  ultimately show ?thesis
    by (simp add: panmove_zoomRef zoom_listener_rotationRef)
qed

theorem gesture_handlers_frame_disjoint_witness:
  "zoomRef (panmove demo_lib demo_pan demo_loaded) = zoomRef demo_loaded \<and>
   svg_zoom (panmove demo_lib demo_pan demo_loaded) = svg_zoom demo_loaded \<and>
   g_transform (panmove demo_lib demo_pan demo_loaded) = g_transform demo_loaded \<and>
   proj_scale (proj (panmove demo_lib demo_pan demo_loaded)) = proj_scale (proj demo_loaded) \<and>
   rotationRef (zoom_listener demo_lib \<lparr>tk = 2, tx = 0, ty = 0\<rparr> demo_loaded) =
     rotationRef demo_loaded \<and>
   coordinates (zoom_listener demo_lib \<lparr>tk = 2, tx = 0, ty = 0\<rparr> demo_loaded) =
     coordinates demo_loaded \<and>
   rotationRef (wheeled demo_lib 4 (10, 20) demo_loaded) = rotationRef demo_loaded \<and>
   rotationRef (pinch demo_lib demo_pan demo_loaded) = rotationRef demo_loaded"
  by (rule gesture_handlers_frame_disjoint)

subsection \<open>Country paths\<close>

lemma updateMap_paths_ok: "paths_ok L (updateMap L s)"
  unfolding paths_ok_def updateMap_paths(1) [of L s]
  by (simp add: list_all_iff)

lemma panmove_paths_ok: "paths_ok L (panmove L ev s)"
  unfolding paths_ok_def
  by (subst panmove_redraw(1)) (simp add: list_all_iff)

lemma d3_zoom_to_paths_ok: "paths_ok L (d3_zoom_to L k1 focus s)"
  by (simp add: d3_zoom_to_def zoom_listener_def Let_def updateMap_paths_ok)

lemma dispatch_paths_ok: "paths_ok L s \<Longrightarrow> paths_ok L (dispatch L e s)"
  by (cases e)
     (simp_all add: panmove_paths_ok pinch_def zoom_scaleTo_def wheeled_def
        d3_zoom_to_paths_ok Let_def,
      simp_all add: paths_ok_def panstart_def pinchstart_def)

lemma run_paths_ok: "paths_ok L s \<Longrightarrow> paths_ok L (run L es s)"
  by (induction es arbitrary: s) (simp_all add: dispatch_paths_ok)

lemma on_fetch_settled_paths_ok:
  "paths_ok L s \<Longrightarrow> paths_ok L (on_fetch_settled L outcome b s)"
  by (auto simp: on_fetch_settled_def then_callback_def paths_ok_def new_path_def list_all_iff
           split: fetch_outcome.splits sum.splits option.splits if_splits)

lemma lifecycle_paths_ok: "paths_ok L (lifecycle L before outcome after)"
  unfolding lifecycle_def
  by (intro run_paths_ok on_fetch_settled_paths_ok)
     (simp add: useEffect_body_def updateMap_paths_ok)

text \<open>
  C8. When the path generator produces no output for a feature, the \<open>d\<close> attribute of
  its path is the empty string: for a path the enter selection appends, for every
  path after \<open>updateMap\<close>, and so for every path at every moment of the component's
  life. The attribute is always a string; no error value and no exception stand for a
  missing outline.
\<close>

theorem no_path_output_gives_empty_string:
  "(geoPath L p d = None \<longrightarrow> attr_d (new_path L p d) = []) \<and>
   (\<forall>e \<in> set (g_paths (updateMap L s)).
      geoPath L (proj (updateMap L s)) (path_datum e) = None \<longrightarrow> attr_d e = []) \<and>
   (\<forall>e \<in> set (g_paths (lifecycle L before outcome after)).
      geoPath L (proj (lifecycle L before outcome after)) (path_datum e) = None \<longrightarrow>
      attr_d e = [])"
proof -
  have "geoPath L p d = None \<longrightarrow> attr_d (new_path L p d) = []"
    by (simp add: new_path_def path_or_empty_def)
  moreover have "paths_ok L st \<Longrightarrow>
      \<forall>e \<in> set (g_paths st). geoPath L (proj st) (path_datum e) = None \<longrightarrow> attr_d e = []" for st
    by (simp add: paths_ok_def list_all_iff path_or_empty_def)
  ultimately show ?thesis
    using updateMap_paths_ok [of L s] lifecycle_paths_ok [of L before outcome after] by blast
qed

theorem no_path_output_gives_empty_string_witness:
  "geoPath demo_lib (proj demo_loaded) (demo_features ! 0) = None \<and>
   attr_d (new_path demo_lib (proj demo_loaded) (demo_features ! 0)) = [] \<and>
   g_paths demo_loaded ! 0 \<in> set (g_paths demo_loaded) \<and>
   geoPath demo_lib (proj demo_loaded) (path_datum (g_paths demo_loaded ! 0)) = None \<and>
   attr_d (g_paths demo_loaded ! 0) = []"
proof -
  have len: "length (g_paths demo_loaded) = 2"
    using arg_cong [OF demo_loaded_drawing(1), of length] by simp
  then have mem: "g_paths demo_loaded ! 0 \<in> set (g_paths demo_loaded)"
    by simp
  have "path_datum (g_paths demo_loaded ! 0) = map path_datum (g_paths demo_loaded) ! 0"
    using len by simp
  then have dat: "path_datum (g_paths demo_loaded ! 0) = demo_features ! 0"
    by (simp only: demo_loaded_drawing(2))
  have h: "geoPath demo_lib (proj demo_loaded) (demo_features ! 0) = None"
    by (simp add: demo_lib_def demo_features_def)
  then have h': "geoPath demo_lib (proj demo_loaded) (path_datum (g_paths demo_loaded ! 0)) = None"
    by (simp only: dat)
  show ?thesis
    using h h' mem
      no_path_output_gives_empty_string
        [of demo_lib "proj demo_loaded" "demo_features ! 0" demo_loaded "[]" "Resolved (Some 1)" "[]",
         folded demo_loaded_def]
    by blast
qed

subsection \<open>Coordinate readout\<close>

lemma dispatch_coords_ok: "coords_ok s \<Longrightarrow> coords_ok (dispatch L e s)"
  by (cases e)
     (simp_all add: coords_ok_def panstart_def pinchstart_def pinch_def zoom_scaleTo_def
        wheeled_def d3_zoom_to_def zoom_listener_def Let_def panmove_fields(3) yaw_def pitch_def)

lemma run_coords_ok: "coords_ok s \<Longrightarrow> coords_ok (run L es s)"
  by (induction es arbitrary: s) (simp_all add: dispatch_coords_ok)

lemma on_fetch_settled_coords_ok:
  "coords_ok s \<Longrightarrow> coords_ok (on_fetch_settled L outcome b s)"
  by (auto simp: on_fetch_settled_def then_callback_def coords_ok_def
           split: fetch_outcome.splits sum.splits option.splits if_splits)

lemma lifecycle_coords_ok: "coords_ok (lifecycle L before outcome after)"
  unfolding lifecycle_def
  by (intro run_coords_ok on_fetch_settled_coords_ok)
     (simp add: useEffect_body_def coords_ok_def init_state_def yaw_def pitch_def)

lemma toString_small: "n < 10 \<Longrightarrow> toString n = [digit_char n]"
  by (simp add: toString.simps)

lemma toString_step: "10 \<le> n \<Longrightarrow> toString n = toString (n div 10) @ [digit_char (n mod 10)]"
  by (subst toString.simps) simp

lemma toString_nonempty: "toString n \<noteq> []"
  by (subst toString.simps) simp

text \<open>
  Below \<open>10\<^sup>2\<^sup>1\<close> the model of \<open>toFixed(2)\<close> writes the hundredths \<open>n\<close> nearest to
  the magnitude as the digits of \<open>n div 100\<close>, a point, and exactly two more digits.
\<close>

lemma toFixed2_digits:
  assumes "\<bar>v\<bar> < 10 ^ 21"
  shows "toFixed2 numToString v =
     (if v < 0 then ''-'' else []) @
     toString (nat \<lfloor>\<bar>v\<bar> * 100 + 1 / 2\<rfloor> div 100) @ ''.'' @
     [digit_char (nat \<lfloor>\<bar>v\<bar> * 100 + 1 / 2\<rfloor> div 10 mod 10),
      digit_char (nat \<lfloor>\<bar>v\<bar> * 100 + 1 / 2\<rfloor> mod 10)]"
proof -
  define n where "n = nat \<lfloor>\<bar>v\<bar> * 100 + 1 / 2\<rfloor>"
  define m' where
    "m' = (if length (toString n) \<le> 2
           then replicate (3 - length (toString n)) CHR ''0'' @ toString n else toString n)"
  have zero: "toString 0 = ''0''"
    by (simp add: toString_small digit_char_def)
  have split: "take (length m' - 2) m' = toString (n div 100) \<and>
      drop (length m' - 2) m' = [digit_char (n div 10 mod 10), digit_char (n mod 10)]"
  proof -
    consider "n < 10" | "10 \<le> n" "n < 100" | "100 \<le> n"
      by linarith
    then show ?thesis
    proof cases
      case 1
      then have "m' = ''00'' @ [digit_char n]"
        by (simp add: m'_def toString_small numeral_2_eq_2)
      then show ?thesis
        using 1 by (simp add: zero digit_char_def)
    next
      case 2
      then have "n div 10 < 10"
        by simp
      then have "toString n = [digit_char (n div 10), digit_char (n mod 10)]"
        using 2(1) by (simp add: toString_step toString_small)
      then have "m' = ''0'' @ [digit_char (n div 10), digit_char (n mod 10)]"
        by (simp add: m'_def)
      then show ?thesis
        using 2 by (simp add: zero)
    next
      case 3
      then have "10 \<le> n" "10 \<le> n div 10"
        by simp_all
      then have "toString n =
          toString (n div 10 div 10) @ [digit_char (n div 10 mod 10), digit_char (n mod 10)]"
        by (simp add: toString_step)
      then have eq: "toString n =
          toString (n div 100) @ [digit_char (n div 10 mod 10), digit_char (n mod 10)]"
        by (simp add: div_mult2_eq [symmetric])
      have "0 < length (toString (n div 100))"
        using toString_nonempty [of "n div 100"] by simp
      then have "m' = toString n"
        by (simp add: m'_def eq)
      then show ?thesis
        by (simp add: eq)
    qed
  qed
  have "toFixed2 numToString v =
      (if v < 0 then ''-'' else []) @ take (length m' - 2) m' @ ''.'' @ drop (length m' - 2) m'"
    using assms by (simp add: toFixed2_def Let_def n_def m'_def)
  then show ?thesis
    using split by (simp add: n_def)
qed

lemma toFixed2_two_decimals:
  assumes "\<bar>v\<bar> < 10 ^ 21"
  shows "toFixed2 numToString v = two_decimals v"
  using toFixed2_digits [OF assms, of numToString] by (simp add: two_decimals_def Let_def)

lemma toFixed2_large:
  assumes "10 ^ 21 \<le> \<bar>v\<bar>"
  shows "toFixed2 numToString v = (if v < 0 then ''-'' else []) @ numToString \<bar>v\<bar>"
  using assms by (simp add: toFixed2_def Let_def)

lemma two_decimals_point: "rev (two_decimals v) ! 2 = CHR ''.''"
  by (simp add: two_decimals_def Let_def)

text \<open>The pitch of the component stays within [-90, 90] all its life.\<close>

lemma dispatch_pitch_ok: "pitch_ok s \<Longrightarrow> pitch_ok (dispatch L e s)"
proof (cases e)
  case (PanMove ev)
  assume "pitch_ok s"
  moreover have "pitch_ok (panmove L ev s)"
    unfolding pitch_ok_def panmove_rotationRef by (simp add: pitch_def)
  ultimately show ?thesis
    using PanMove by simp
next
  case (Pinch ev)
  assume "pitch_ok s"
  then show ?thesis
    using Pinch by (simp add: pitch_ok_def pinch_def zoom_scaleTo_def Let_def d3_zoom_to_rotationRef)
next
  case (Wheel k1 p)
  assume "pitch_ok s"
  then show ?thesis
    using Wheel by (simp add: pitch_ok_def wheeled_def d3_zoom_to_rotationRef)
qed (simp_all add: pitch_ok_def panstart_def pinchstart_def)

lemma run_pitch_ok: "pitch_ok s \<Longrightarrow> pitch_ok (run L es s)"
  by (induction es arbitrary: s) (simp_all add: dispatch_pitch_ok)

lemma on_fetch_settled_rotationRef:
  "rotationRef (on_fetch_settled L outcome b s) = rotationRef s"
  by (auto simp: on_fetch_settled_def then_callback_def
           split: fetch_outcome.splits sum.splits option.splits if_splits)

lemma lifecycle_pitch_ok: "pitch_ok (lifecycle L before outcome after)"
proof -
  have "pitch_ok (useEffect_body L True (init_state :: 'a app_state))"
    by (simp add: pitch_ok_def useEffect_body_def init_state_def pitch_def)
  then have "pitch_ok (run L before (useEffect_body L True init_state))"
    by (rule run_pitch_ok)
  then have "pitch_ok (on_fetch_settled L outcome True
                         (run L before (useEffect_body L True init_state)))"
    by (simp add: pitch_ok_def on_fetch_settled_rotationRef)
  then show ?thesis
    unfolding lifecycle_def by (rule run_pitch_ok)
qed

lemma demo_far_rotationRef: "rotationRef demo_far = (- 13.27 + 10 ^ 300 * 0.3, - 58.33, 0)"
proof -
  have eq: "demo_far = panmove demo_lib demo_fling (panstart demo_loaded)"
    using demo_loaded_fields(6)
    by (simp add: demo_far_def demo_loaded_def lifecycle_def panstart_def)
  show ?thesis
    unfolding eq panmove_rotationRef
    by (simp add: panstart_def demo_loaded_fields demo_fling_def zoomIdentity_def
          yaw_def pitch_def)
qed

text \<open>
  C9, as the code has it. The readout holds no state of its own beyond a copy of the
  rotation: at every moment of the component's life its text is \<open>toFixed(2)\<close> of the
  current yaw and of the current pitch, each followed by a degree sign, separated by
  a comma and a space. The pitch is always written with exactly two decimal places;
  the yaw is as long as its magnitude is below \<open>10\<^sup>2\<^sup>1\<close>, and from there on
  \<open>toFixed\<close> writes the sign and the number's own string conversion.
\<close>

theorem readout_formats_current_rotation:
  "readout numToString (lifecycle L before outcome after) =
     toFixed2 numToString (yaw (rotationRef (lifecycle L before outcome after))) @
     [CHR 0xB0] @ '', '' @
     toFixed2 numToString (pitch (rotationRef (lifecycle L before outcome after))) @
     [CHR 0xB0] \<and>
   toFixed2 numToString (pitch (rotationRef (lifecycle L before outcome after))) =
     two_decimals (pitch (rotationRef (lifecycle L before outcome after))) \<and>
   (\<bar>yaw (rotationRef (lifecycle L before outcome after))\<bar> < 10 ^ 21 \<longrightarrow>
      toFixed2 numToString (yaw (rotationRef (lifecycle L before outcome after))) =
        two_decimals (yaw (rotationRef (lifecycle L before outcome after)))) \<and>
   (10 ^ 21 \<le> \<bar>yaw (rotationRef (lifecycle L before outcome after))\<bar> \<longrightarrow>
      toFixed2 numToString (yaw (rotationRef (lifecycle L before outcome after))) =
        (if yaw (rotationRef (lifecycle L before outcome after)) < 0 then ''-'' else []) @
        numToString \<bar>yaw (rotationRef (lifecycle L before outcome after))\<bar>)"
proof -
  define st where "st = lifecycle L before outcome after"
  have a: "readout numToString st =
     toFixed2 numToString (yaw (rotationRef st)) @ [CHR 0xB0] @ '', '' @
     toFixed2 numToString (pitch (rotationRef st)) @ [CHR 0xB0]"
    using lifecycle_coords_ok [of L before outcome after]
    by (simp add: readout_def coords_ok_def st_def)
  have "- 90 \<le> pitch (rotationRef st)" "pitch (rotationRef st) \<le> 90"
    using lifecycle_pitch_ok [of L before outcome after] by (simp_all add: pitch_ok_def st_def)
  then have "\<bar>pitch (rotationRef st)\<bar> < 10 ^ 21"
    by simp
  then have b: "toFixed2 numToString (pitch (rotationRef st)) = two_decimals (pitch (rotationRef st))"
    by (rule toFixed2_two_decimals)
  have c: "\<bar>yaw (rotationRef st)\<bar> < 10 ^ 21 \<longrightarrow>
      toFixed2 numToString (yaw (rotationRef st)) = two_decimals (yaw (rotationRef st))"
    using toFixed2_two_decimals [of "yaw (rotationRef st)" numToString] by blast
  have d: "10 ^ 21 \<le> \<bar>yaw (rotationRef st)\<bar> \<longrightarrow>
      toFixed2 numToString (yaw (rotationRef st)) =
        (if yaw (rotationRef st) < 0 then ''-'' else []) @ numToString \<bar>yaw (rotationRef st)\<bar>"
    using toFixed2_large [of "yaw (rotationRef st)" numToString] by blast
  show ?thesis
    using a b c d unfolding st_def by blast
qed

theorem readout_formats_current_rotation_witness:
  "\<bar>yaw (rotationRef demo_loaded)\<bar> < 10 ^ 21 \<and>
   readout demo_numToString demo_loaded = ''-13.27'' @ [CHR 0xB0] @ '', -58.33'' @ [CHR 0xB0] \<and>
   10 ^ 21 \<le> \<bar>yaw (rotationRef demo_far)\<bar> \<and>
   toFixed2 demo_numToString (yaw (rotationRef demo_far)) = ''3e+299''"
proof -
  have h1: "\<bar>yaw (rotationRef demo_loaded)\<bar> < 10 ^ 21"
    by (simp add: demo_loaded_fields yaw_def)
  have h2: "10 ^ 21 \<le> \<bar>yaw (rotationRef demo_far)\<bar>"
    by (simp add: demo_far_rotationRef yaw_def)
  have near: "readout demo_numToString demo_loaded =
      ''-13.27'' @ [CHR 0xB0] @ '', -58.33'' @ [CHR 0xB0]"
    using h1
      readout_formats_current_rotation
        [of demo_numToString demo_lib "[]" "Resolved (Some 1)" "[]", folded demo_loaded_def]
    by (simp add: demo_loaded_fields yaw_def pitch_def two_decimals_def Let_def
          toString.simps digit_char_def)
  have "\<not> yaw (rotationRef demo_far) < 0"
    by (simp add: demo_far_rotationRef yaw_def)
  then have far: "toFixed2 demo_numToString (yaw (rotationRef demo_far)) = ''3e+299''"
    using h2
      readout_formats_current_rotation
        [of demo_numToString demo_lib "[]" "Resolved (Some 1)" "[PanStart, PanMove demo_fling]",
         folded demo_far_def]
    by (simp add: demo_numToString_def)
  show ?thesis
    using h1 h2 near far by blast
qed

text \<open>
  The claim as stated fails: a pan far enough takes the yaw past \<open>10\<^sup>2\<^sup>1\<close>, and the
  readout then shows the yaw in exponent notation, not with two decimal places.
\<close>

theorem readout_large_yaw_not_two_decimals:
  "readout demo_numToString demo_far = ''3e+299'' @ [CHR 0xB0] @ '', -58.33'' @ [CHR 0xB0] \<and>
   readout demo_numToString demo_far \<noteq>
     two_decimals (yaw (rotationRef demo_far)) @ [CHR 0xB0] @ '', '' @
     two_decimals (pitch (rotationRef demo_far)) @ [CHR 0xB0]"
proof -
  have coords: "coordinates demo_far = (yaw (rotationRef demo_far), pitch (rotationRef demo_far))"
    using lifecycle_coords_ok [of demo_lib "[]" "Resolved (Some 1)" "[PanStart, PanMove demo_fling]"]
    by (simp add: coords_ok_def demo_far_def)
  have big: "toFixed2 demo_numToString (yaw (rotationRef demo_far)) = ''3e+299''"
    by (subst toFixed2_large) (simp_all add: demo_far_rotationRef yaw_def demo_numToString_def)
  have small: "toFixed2 demo_numToString (pitch (rotationRef demo_far)) = ''-58.33''"
    by (simp add: demo_far_rotationRef pitch_def toFixed2_def Let_def toString.simps digit_char_def)
  have p2: "two_decimals (pitch (rotationRef demo_far)) = ''-58.33''"
    by (simp add: demo_far_rotationRef pitch_def two_decimals_def Let_def toString.simps
          digit_char_def)
  have shown: "readout demo_numToString demo_far =
      ''3e+299'' @ [CHR 0xB0] @ '', -58.33'' @ [CHR 0xB0]"
    by (simp add: readout_def coords big small)
  have "rev ''3e+299'' ! 2 \<noteq> CHR ''.''"
    by simp
  then have "''3e+299'' \<noteq> two_decimals (yaw (rotationRef demo_far))"
    using two_decimals_point [of "yaw (rotationRef demo_far)"] by metis
  then have "''3e+299'' @ ([CHR 0xB0] @ '', -58.33'' @ [CHR 0xB0]) \<noteq>
      two_decimals (yaw (rotationRef demo_far)) @ ([CHR 0xB0] @ '', -58.33'' @ [CHR 0xB0])"
    by (simp only: append_same_eq not_False_eq_True)
  then show ?thesis
    unfolding shown p2 by simp
qed

subsection \<open>Fetch failure\<close>

lemma dispatch_scene:
  "clip_circle (dispatch L e s) = clip_circle s"
  "background (dispatch L e s) = background s"
  "border_circle (dispatch L e s) = border_circle s"
  "degreesGroup (dispatch L e s) = degreesGroup s"
  "console (dispatch L e s) = console s"
  "hammer (dispatch L e s) = hammer s"
  "length (g_paths (dispatch L e s)) = length (g_paths s)"
  "length (g_texts (dispatch L e s)) = length (g_texts s)"
  by (cases e; simp add: panstart_def pinchstart_def pinch_def zoom_scaleTo_def wheeled_def
        d3_zoom_to_def zoom_listener_def panmove_def updateMap_def Let_def split: prod.splits)+

lemma run_scene:
  "clip_circle (run L es s) = clip_circle s"
  "background (run L es s) = background s"
  "border_circle (run L es s) = border_circle s"
  "degreesGroup (run L es s) = degreesGroup s"
  "console (run L es s) = console s"
  "hammer (run L es s) = hammer s"
  "length (g_paths (run L es s)) = length (g_paths s)"
  "length (g_texts (run L es s)) = length (g_texts s)"
  by (induction es arbitrary: s; simp add: dispatch_scene)+

lemma mounted_scene:
  "clip_circle (useEffect_body L True init_state) = Some (400, 400, 390)"
  "background (useEffect_body L True init_state) = Some (800, 800, ''#a6d5ff'')"
  "border_circle (useEffect_body L True init_state) = None"
  "degreesGroup (useEffect_body L True init_state) = None"
  "console (useEffect_body L True init_state) = []"
  "\<not> hammer (useEffect_body L True init_state)"
  "g_paths (useEffect_body L True init_state) = []"
  "g_texts (useEffect_body L True init_state) = []"
  by (simp_all add: useEffect_body_def init_state_def updateMap_def Let_def width_def height_def)

lemma rejected_scene:
  "on_fetch_settled L (Rejected e) b s =
     s\<lparr>console := console s @ [(''Error loading or processing world map data:'', e)]\<rparr>"
  by (simp add: on_fetch_settled_def)

text \<open>
  C3, as the code has it. If the topology fetch fails, then whatever gestures arrive
  before and after, the drawing consists of the clip circle and the background only:
  no country shapes, no labels, no border circle and no tick ring (the group of tick
  marks is never created, since the tick loop is in the \<open>.then\<close> callback), and no pan
  or pinch handlers; the rejection is caught, and exactly one error is logged.
\<close>

theorem fetch_failure_background_only:
  "clip_circle (lifecycle L before (Rejected e) after) = Some (400, 400, 390) \<and>
   background (lifecycle L before (Rejected e) after) = Some (800, 800, ''#a6d5ff'') \<and>
   g_paths (lifecycle L before (Rejected e) after) = [] \<and>
   g_texts (lifecycle L before (Rejected e) after) = [] \<and>
   border_circle (lifecycle L before (Rejected e) after) = None \<and>
   degreesGroup (lifecycle L before (Rejected e) after) = None \<and>
   \<not> hammer (lifecycle L before (Rejected e) after) \<and>
   console (lifecycle L before (Rejected e) after) =
     [(''Error loading or processing world map data:'', e)]"
proof -
  have "length (g_paths (lifecycle L before (Rejected e) after)) = 0"
    "length (g_texts (lifecycle L before (Rejected e) after)) = 0"
    by (simp_all add: lifecycle_def run_scene rejected_scene mounted_scene)
  then have "g_paths (lifecycle L before (Rejected e) after) = []"
    "g_texts (lifecycle L before (Rejected e) after) = []"
    by simp_all
  then show ?thesis
    by (simp add: lifecycle_def run_scene rejected_scene mounted_scene)
qed

theorem fetch_failure_background_only_witness:
  "clip_circle (lifecycle demo_lib [Wheel 2 (0, 0)] (Rejected (Error ''Failed to fetch''))
                  [PanStart, PanMove demo_pan]) = Some (400, 400, 390) \<and>
   background (lifecycle demo_lib [Wheel 2 (0, 0)] (Rejected (Error ''Failed to fetch''))
                 [PanStart, PanMove demo_pan]) = Some (800, 800, ''#a6d5ff'') \<and>
   g_paths (lifecycle demo_lib [Wheel 2 (0, 0)] (Rejected (Error ''Failed to fetch''))
              [PanStart, PanMove demo_pan]) = [] \<and>
   g_texts (lifecycle demo_lib [Wheel 2 (0, 0)] (Rejected (Error ''Failed to fetch''))
              [PanStart, PanMove demo_pan]) = [] \<and>
   border_circle (lifecycle demo_lib [Wheel 2 (0, 0)] (Rejected (Error ''Failed to fetch''))
                    [PanStart, PanMove demo_pan]) = None \<and>
   degreesGroup (lifecycle demo_lib [Wheel 2 (0, 0)] (Rejected (Error ''Failed to fetch''))
                   [PanStart, PanMove demo_pan]) = None \<and>
   \<not> hammer (lifecycle demo_lib [Wheel 2 (0, 0)] (Rejected (Error ''Failed to fetch''))
               [PanStart, PanMove demo_pan]) \<and>
   console (lifecycle demo_lib [Wheel 2 (0, 0)] (Rejected (Error ''Failed to fetch''))
              [PanStart, PanMove demo_pan]) =
     [(''Error loading or processing world map data:'', Error ''Failed to fetch'')]"
  by (rule fetch_failure_background_only)

text \<open>
  The claim as stated fails: after a failed fetch the tick ring is absent, while a
  successful load draws it.
\<close>

theorem fetch_failure_draws_no_ticks:
  "degreesGroup (lifecycle demo_lib [] (Rejected (Error ''Failed to fetch'')) []) = None \<and>
   degreesGroup (lifecycle demo_lib [] (Resolved (Some 1)) []) = Some (tick_loop 0 []) \<and>
   tick_loop 0 [] \<noteq> []"
proof -
  have "tick_loop 0 [] = tick_loop 5 (tick_body 0)"
    by (subst tick_loop.simps) simp
  also have "\<dots> = tick_loop 10 (tick_body 0 @ tick_body 5)"
    by (subst tick_loop.simps) simp
  finally have "tick_loop 0 [] = tick_loop 10 (tick_body 0 @ tick_body 5)" .
  moreover have "tick_loop i els \<noteq> []" if "els \<noteq> []" for i els
    using that by (induction i els rule: tick_loop.induct) (subst tick_loop.simps, simp)
  ultimately have "tick_loop 0 [] \<noteq> []"
    by (simp add: tick_body_def)
  then show ?thesis
    by (simp add: lifecycle_def on_fetch_settled_def then_callback_def useEffect_body_def
          init_state_def demo_lib_def)
qed

subsection \<open>The tick ring formula\<close>

lemma tick_loop_from:
  "n \<le> 72 \<Longrightarrow> tick_loop (5 * n) els = els @ concat (map (\<lambda>j. tick_body (5 * j)) [n..<72])"
proof (induction "72 - n" arbitrary: n els)
  case 0
  then have "n = 72" by simp
  then show ?case by (simp add: tick_loop.simps [of 360])
next
  case (Suc m)
  then have lt: "n < 72" and le: "Suc n \<le> 72" and m: "m = 72 - Suc n" by simp_all
  have "tick_loop (5 * n) els = tick_loop (5 * Suc n) (els @ tick_body (5 * n))"
    using lt by (subst tick_loop.simps) (simp add: add.commute)
  also have "\<dots> = (els @ tick_body (5 * n)) @ concat (map (\<lambda>j. tick_body (5 * j)) [Suc n..<72])"
    using Suc.hyps(1) [OF m le] .
  also have "\<dots> = els @ concat (map (\<lambda>j. tick_body (5 * j)) [n..<72])"
    using lt by (simp add: upt_conv_Cons)
  finally show ?case .
qed

lemma tick_loop_all: "tick_loop 0 [] = concat (map (\<lambda>j. tick_body (5 * j)) [0..<72])"
  using tick_loop_from [of 0 "[]"] by simp

lemma tick_kinds [simp]:
  "is_line (tick_line i)" "\<not> is_line (tick_text i)"
  "\<not> is_label (tick_line i)" "is_label (tick_text i)"
  by (simp_all add: tick_line_def tick_text_def Let_def)

lemma filter_lines_body: "filter is_line (tick_body i) = [tick_line i]"
  by (simp add: tick_body_def)

lemma filter_labels_body:
  "filter is_label (tick_body i) = (if i mod 10 = 0 then [tick_text i] else [])"
  by (simp add: tick_body_def)

lemma filter_lines_concat:
  "filter is_line (concat (map (\<lambda>j. tick_body (5 * j)) js)) = map (\<lambda>j. tick_line (5 * j)) js"
  by (induction js) (simp_all add: filter_lines_body)

lemma filter_labels_concat:
  "filter is_label (concat (map (\<lambda>j. tick_body (5 * j)) js)) =
     map (\<lambda>j. tick_text (5 * j)) (filter even js)"
proof (induction js)
  case Nil
  then show ?case by simp
next
  case (Cons j js)
  have "(5 * j) mod 10 = 0 \<longleftrightarrow> even j" by presburger
  then show ?case using Cons by (simp add: filter_labels_body)
qed

lemma filter_even_upt: "filter even [0..<2 * n] = map (\<lambda>j. 2 * j) [0..<n]"
  by (induction n) simp_all

lemma tick_lines: "filter is_line (tick_loop 0 []) = map (\<lambda>j. tick_line (5 * j)) [0..<72]"
  by (simp only: tick_loop_all filter_lines_concat)

lemma tick_labels: "filter is_label (tick_loop 0 []) = map (\<lambda>j. tick_text (10 * j)) [0..<36]"
proof -
  have "filter even [0..<72] = map (\<lambda>j. 2 * j) [0..<36]"
    using filter_even_upt [of 36] by simp
  then show ?thesis
    by (simp only: tick_loop_all filter_labels_concat) (simp add: comp_def)
qed

text \<open>Two degree values below 360 with the same direction are the same value.\<close>

lemma tick_angle_inj:
  assumes "i < 360" and "j < 360"
    and "sin (tick_angle i) = sin (tick_angle j)" and "cos (tick_angle i) = cos (tick_angle j)"
  shows "i = j"
proof -
  obtain n :: int where n: "tick_angle i = tick_angle j + 2 * pi * real_of_int n"
    using assms(3,4) sin_cos_eq_iff [of "tick_angle i" "tick_angle j"] by blast
  have c: "2 * pi * real_of_int n = (360 * real_of_int n) * (pi / 180)"
    by simp
  have "real i * (pi / 180) = (real j + 360 * real_of_int n) * (pi / 180)"
    using n unfolding tick_angle_def c by (simp only: distrib_right)
  then have "pi / 180 = 0 \<or> real i = real j + 360 * real_of_int n"
    by (simp only: mult_cancel_right)
  then have "real i = real j + 360 * real_of_int n"
    using pi_gt_zero by simp
  then have "real_of_int (int i) = real_of_int (int j + 360 * n)"
    by simp
  then have eq: "int i = int j + 360 * n"
    by (simp only: of_int_eq_iff)
  moreover have "int i < 360" "int j < 360" "0 \<le> int i" "0 \<le> int j"
    using assms(1,2) by simp_all
  ultimately have "n = 0"
    by linarith
  with eq show ?thesis
    by simp
qed

lemma tick_line_inj:
  assumes "i < 360" and "j < 360" and "tick_line i = tick_line j"
  shows "i = j"
proof -
  have "line_x2 (tick_line i) = line_x2 (tick_line j)"
    "line_y2 (tick_line i) = line_y2 (tick_line j)"
    using assms(3) by simp_all
  then have "sin (tick_angle i) = sin (tick_angle j)" "cos (tick_angle i) = cos (tick_angle j)"
    by (simp_all add: tick_line_def outerRadius_def height_def)
  with assms(1,2) show ?thesis
    by (rule tick_angle_inj)
qed

lemma tick_text_inj:
  assumes "i < 360" and "j < 360" and "tick_text i = tick_text j"
  shows "i = j"
proof -
  have "text_x (tick_text i) = text_x (tick_text j)"
    "text_y (tick_text i) = text_y (tick_text j)"
    using assms(3) by simp_all
  then have "sin (tick_angle i) = sin (tick_angle j)" "cos (tick_angle i) = cos (tick_angle j)"
    by (simp_all add: tick_text_def outerRadius_def height_def Let_def)
  with assms(1,2) show ?thesis
    by (rule tick_angle_inj)
qed

lemma count_list_filter: "P x \<Longrightarrow> count_list (filter P xs) x = count_list xs x"
  by (induction xs) auto

lemma count_list_upt: "m < n \<Longrightarrow> count_list [0..<n] m = 1"
  by (induction n) (auto simp: less_Suc_eq)

lemma count_tick_line:
  assumes "i < 360" and "i mod 5 = 0"
  shows "count_list (tick_loop 0 []) (tick_line i) = 1"
proof -
  define m where "m = i div 5"
  have "i = 5 * m"
    using mult_div_mod_eq [of 5 i] assms(2) by (simp add: m_def)
  moreover from this have "m < 72"
    using assms(1) by linarith
  ultimately have m: "i = 5 * m" "m < 72" .
  have inj: "inj_on (\<lambda>j. tick_line (5 * j)) (set [0..<72])"
  proof (rule inj_onI)
    fix a b
    assume "a \<in> set [0..<72]" "b \<in> set [0..<72]" "tick_line (5 * a) = tick_line (5 * b)"
    then have "5 * a < 360" "5 * b < 360" "tick_line (5 * a) = tick_line (5 * b)"
      by simp_all
    then have "5 * a = 5 * b"
      by (rule tick_line_inj)
    then show "a = b" by simp
  qed
  have "count_list (tick_loop 0 []) (tick_line i) =
      count_list (filter is_line (tick_loop 0 [])) (tick_line i)"
    by (simp add: count_list_filter)
  also have "\<dots> = count_list (map (\<lambda>j. tick_line (5 * j)) [0..<72]) (tick_line (5 * m))"
    by (simp only: tick_lines m)
  also have "\<dots> = count_list [0..<72] m"
    using inj m(2) by (intro count_list_inj_map) simp_all
  also have "\<dots> = 1"
    using m(2) by (rule count_list_upt)
  finally show ?thesis .
qed

lemma count_tick_text:
  assumes "i < 360" and "i mod 5 = 0"
  shows "count_list (tick_loop 0 []) (tick_text i) = (if i mod 10 = 0 then 1 else 0)"
proof (cases "i mod 10 = 0")
  case True
  define m where "m = i div 10"
  have "i = 10 * m"
    using mult_div_mod_eq [of 10 i] True by (simp add: m_def)
  moreover from this have "m < 36"
    using assms(1) by linarith
  ultimately have m: "i = 10 * m" "m < 36" .
  have inj: "inj_on (\<lambda>j. tick_text (10 * j)) (set [0..<36])"
  proof (rule inj_onI)
    fix a b
    assume "a \<in> set [0..<36]" "b \<in> set [0..<36]" "tick_text (10 * a) = tick_text (10 * b)"
    then have "10 * a < 360" "10 * b < 360" "tick_text (10 * a) = tick_text (10 * b)"
      by simp_all
    then have "10 * a = 10 * b"
      by (rule tick_text_inj)
    then show "a = b" by simp
  qed
  have "count_list (tick_loop 0 []) (tick_text i) =
      count_list (filter is_label (tick_loop 0 [])) (tick_text i)"
    by (simp add: count_list_filter)
  also have "\<dots> = count_list (map (\<lambda>j. tick_text (10 * j)) [0..<36]) (tick_text (10 * m))"
    by (simp only: tick_labels m)
  also have "\<dots> = count_list [0..<36] m"
    using inj m(2) by (intro count_list_inj_map) simp_all
  also have "\<dots> = 1"
    using m(2) by (rule count_list_upt)
  finally show ?thesis using True by simp
next
  case False
  have "tick_text i \<notin> set (map (\<lambda>j. tick_text (10 * j)) [0..<36])"
  proof
    assume "tick_text i \<in> set (map (\<lambda>j. tick_text (10 * j)) [0..<36])"
    then obtain j where j: "j < 36" "tick_text i = tick_text (10 * j)" by auto
    from j(1) have "10 * j < 360" by simp
    with assms(1) have "i = 10 * j" using j(2) by (rule tick_text_inj)
    with False show False by simp
  qed
  then have "count_list (filter is_label (tick_loop 0 [])) (tick_text i) = 0"
    unfolding tick_labels by (rule count_notin)
  then show ?thesis
    using False by (simp add: count_list_filter)
qed

lemma innerRadius_values:
  "innerRadius i =
     (if i mod 60 = 0 then 19.5 else if i mod 30 = 0 then 132.6
      else if i mod 10 = 0 then 249.6 else 312)"
  by (simp add: innerRadius_def outerRadius_def height_def)

lemma tick_line_radial:
  "line_x1 (tick_line i) = 400 + innerRadius i * sin (real i * pi / 180)"
  "line_y1 (tick_line i) = 400 - innerRadius i * cos (real i * pi / 180)"
  "line_x2 (tick_line i) = 400 + 390 * sin (real i * pi / 180)"
  "line_y2 (tick_line i) = 400 - 390 * cos (real i * pi / 180)"
  by (simp_all add: tick_line_def tick_angle_def outerRadius_def width_def height_def)

text \<open>
  C5. The tick ring comes from a fixed formula. For every degree value i in
  {0, 5, ..., 355} the loop draws exactly one line, the radial segment at angle i from
  the inner radius of i to the outer radius 390 about the centre (400, 400); it draws
  the label of i (the digits of i and the ordinal sign) exactly once when i is a
  multiple of 10 and never otherwise; the lines are those of 0, 5, ..., 355 in this
  order and the labels those of 0, 10, ..., 350; and the inner radius is 19.5 for
  multiples of 60, 132.6 for other multiples of 30, 249.6 for other multiples of 10
  and 312 for the rest, so that multiples of 60 reach closest to the centre.
\<close>

theorem tick_ring_formula:
  "(\<forall>i. i < 360 \<and> i mod 5 = 0 \<longrightarrow>
      count_list (tick_loop 0 []) (tick_line i) = 1 \<and>
      count_list (tick_loop 0 []) (tick_text i) = (if i mod 10 = 0 then 1 else 0)) \<and>
   filter is_line (tick_loop 0 []) = map (\<lambda>j. tick_line (5 * j)) [0..<72] \<and>
   filter is_label (tick_loop 0 []) = map (\<lambda>j. tick_text (10 * j)) [0..<36] \<and>
   (\<forall>i. line_x1 (tick_line i) = 400 + innerRadius i * sin (real i * pi / 180) \<and>
        line_y1 (tick_line i) = 400 - innerRadius i * cos (real i * pi / 180) \<and>
        line_x2 (tick_line i) = 400 + 390 * sin (real i * pi / 180) \<and>
        line_y2 (tick_line i) = 400 - 390 * cos (real i * pi / 180) \<and>
        tick_label (tick_text i) = toString i @ [CHR 0xBA]) \<and>
   (\<forall>i. innerRadius i =
        (if i mod 60 = 0 then 19.5 else if i mod 30 = 0 then 132.6
         else if i mod 10 = 0 then 249.6 else 312)) \<and>
   (\<forall>i j. i mod 60 = 0 \<and> j mod 60 \<noteq> 0 \<longrightarrow> innerRadius i < innerRadius j)"
proof (intro conjI allI impI)
  fix i :: nat
  assume "i < 360 \<and> i mod 5 = 0"
  then show "count_list (tick_loop 0 []) (tick_line i) = 1"
    by (simp add: count_tick_line)
next
  fix i :: nat
  assume "i < 360 \<and> i mod 5 = 0"
  then have "i < 360" and "i mod 5 = 0"
    by simp_all
  then show "count_list (tick_loop 0 []) (tick_text i) = (if i mod 10 = 0 then 1 else 0)"
    by (rule count_tick_text)
next
  show "filter is_line (tick_loop 0 []) = map (\<lambda>j. tick_line (5 * j)) [0..<72]"
    by (rule tick_lines)
next
  show "filter is_label (tick_loop 0 []) = map (\<lambda>j. tick_text (10 * j)) [0..<36]"
    by (rule tick_labels)
next
  fix i
  show "line_x1 (tick_line i) = 400 + innerRadius i * sin (real i * pi / 180)"
    by (rule tick_line_radial)
  show "line_y1 (tick_line i) = 400 - innerRadius i * cos (real i * pi / 180)"
    by (rule tick_line_radial)
  show "line_x2 (tick_line i) = 400 + 390 * sin (real i * pi / 180)"
    by (rule tick_line_radial)
  show "line_y2 (tick_line i) = 400 - 390 * cos (real i * pi / 180)"
    by (rule tick_line_radial)
  show "tick_label (tick_text i) = toString i @ [CHR 0xBA]"
    by (simp add: tick_text_def Let_def)
  show "innerRadius i =
        (if i mod 60 = 0 then 19.5 else if i mod 30 = 0 then 132.6
         else if i mod 10 = 0 then 249.6 else 312)"
    by (rule innerRadius_values)
next
  fix i j :: nat
  assume "i mod 60 = 0 \<and> j mod 60 \<noteq> 0"
  then show "innerRadius i < innerRadius j"
    by (simp add: innerRadius_values)
qed

theorem tick_ring_formula_witness:
  "(45::nat) < 360 \<and> (45::nat) mod 5 = 0 \<and>
   count_list (tick_loop 0 []) (tick_line 45) = 1 \<and>
   count_list (tick_loop 0 []) (tick_text 45) = 0 \<and>
   (120::nat) < 360 \<and> (120::nat) mod 5 = 0 \<and>
   count_list (tick_loop 0 []) (tick_line 120) = 1 \<and>
   count_list (tick_loop 0 []) (tick_text 120) = 1 \<and>
   tick_label (tick_text 120) = ''120'' @ [CHR 0xBA] \<and>
   (120::nat) mod 60 = 0 \<and> (45::nat) mod 60 \<noteq> 0 \<and>
   innerRadius 120 = 19.5 \<and> innerRadius 45 = 312 \<and> innerRadius 120 < innerRadius 45"
proof -
  have all: "\<forall>i. i < 360 \<and> i mod 5 = 0 \<longrightarrow>
      count_list (tick_loop 0 []) (tick_line i) = 1 \<and>
      count_list (tick_loop 0 []) (tick_text i) = (if i mod 10 = 0 then 1 else 0)"
    using tick_ring_formula by (rule conjunct1)
  have h45: "(45::nat) < 360 \<and> (45::nat) mod 5 = 0"
    by simp
  have h120: "(120::nat) < 360 \<and> (120::nat) mod 5 = 0"
    by simp
  have "count_list (tick_loop 0 []) (tick_line 45) = 1 \<and>
      count_list (tick_loop 0 []) (tick_text 45) = (if (45::nat) mod 10 = 0 then 1 else 0)"
    using all [THEN spec, of 45] h45 by (rule mp)
  then have a: "count_list (tick_loop 0 []) (tick_line 45) = 1"
    "count_list (tick_loop 0 []) (tick_text 45) = 0"
    by simp_all
  have "count_list (tick_loop 0 []) (tick_line 120) = 1 \<and>
      count_list (tick_loop 0 []) (tick_text 120) = (if (120::nat) mod 10 = 0 then 1 else 0)"
    using all [THEN spec, of 120] h120 by (rule mp)
  then have b: "count_list (tick_loop 0 []) (tick_line 120) = 1"
    "count_list (tick_loop 0 []) (tick_text 120) = 1"
    by simp_all
  have c: "tick_label (tick_text 120) = ''120'' @ [CHR 0xBA]"
    by (simp add: tick_text_def Let_def toString.simps digit_char_def)
  have d: "innerRadius 120 = 19.5" "innerRadius 45 = 312"
    by (simp_all add: innerRadius_values)
  have e: "innerRadius 120 < innerRadius 45"
    unfolding d by simp
  show ?thesis
    using a b c d e by simp
qed

end
